theory Spec2Isabelle
  imports Main
begin

section \<open>Errors\<close>

text \<open>
  Go errors are values. The sentinels declared with \<^verbatim>\<open>errors.New\<close> in the packages
  \<^verbatim>\<open>validate\<close>, \<^verbatim>\<open>crl\<close> and \<^verbatim>\<open>attest\<close> are constructors of their own.
  A call of \<^verbatim>\<open>fmt.Errorf\<close> keeps its format string and its operands: \<open>Errorf\<close> has
  no operand, \<open>ErrorfCount\<close> two integers (\<^verbatim>\<open>%d\<close>), \<open>ErrorfStatus\<close> a quoted
  text and an integer (\<^verbatim>\<open>%q\<close>, \<^verbatim>\<open>%d\<close>), \<open>Wrapf\<close> a non-nil error wrapped
  with \<^verbatim>\<open>%w\<close>, \<open>WrapfQ\<close> a quoted text and a wrapped error, and \<open>WrapfNil\<close> is
  the case where the operand of \<^verbatim>\<open>%w\<close> is nil (the result is still a non-nil error).
  \<open>WrapV w v\<close> is the format \<^verbatim>\<open>"%w: %v"\<close> of \<^verbatim>\<open>Check\<close>, and
  \<open>CloseFailed w v\<close> the format \<^verbatim>\<open>"failed to close TPM: %w (original error: %v)"\<close>.
  \<open>External\<close> stands for any error made by a library outside the repository.
\<close>

datatype err =
    ErrUntrustedCertificate
  | ErrCertificateRevoked
  | ErrEKCannotBeCA
  | ErrDownloaderDisabled
  | ErrCrlIsExpired
  | ErrCrlNotYetValid
  | ErrUnknownAuthorityError
  | ErrCrlCannotBeNil
  | ErrEKCertNotFound
  | External string
  | Errorf string
  | ErrorfCount string int int
  | ErrorfStatus string string int
  | Wrapf string err
  | WrapfNil string
  | WrapfQ string string err
  | WrapV err err
  | CloseFailed err "err option"

text \<open>\<^verbatim>\<open>errors.Is(e, target)\<close> for a sentinel target: follow the \<^verbatim>\<open>%w\<close> chain.\<close>

fun errors_Is :: "err \<Rightarrow> err \<Rightarrow> bool" where
  "errors_Is (Wrapf m e) t = (Wrapf m e = t \<or> errors_Is e t)"
| "errors_Is (WrapfQ m q e) t = (WrapfQ m q e = t \<or> errors_Is e t)"
| "errors_Is (WrapV e v) t = (WrapV e v = t \<or> errors_Is e t)"
| "errors_Is (CloseFailed e v) t = (CloseFailed e v = t \<or> errors_Is e t)"
| "errors_Is e t = (e = t)"

text \<open>
  A function that can hit a nil dereference either returns its results or panics.
\<close>

datatype 'a outcome = Return 'a | Panic

section \<open>Package crl: the revocation list wrapper\<close>

type_synonym time = int

record RevocationListEntry =
  entry_SerialNumber :: int
  RevocationTime :: time

record RevocationList =
  ThisUpdate :: time
  NextUpdate :: time
  RevokedCertificateEntries :: "RevocationListEntry list"
  Signature :: "nat list"

record Certificate =
  IsCA :: bool
  IssuingCertificateURL :: "string list"
  CRLDistributionPoints :: "string list"
  UnhandledCriticalExtensions :: "int list list"
  UnknownExtKeyUsage :: "int list list"
  SerialNumber :: int
  Raw :: "nat list"

text \<open>\<^verbatim>\<open>time.Time.After\<close> and \<^verbatim>\<open>time.Time.Before\<close> are strict.\<close>

definition After :: "time \<Rightarrow> time \<Rightarrow> bool" where
  "After t u = (u < t)"

definition Before :: "time \<Rightarrow> time \<Rightarrow> bool" where
  "Before t u = (t < u)"

text \<open>
  \<^verbatim>\<open>func (c *crl) IsValid() error\<close>; the value read from \<^verbatim>\<open>time.Now()\<close> is
  the argument \<open>now\<close>.
\<close>

definition IsValid :: "RevocationList \<Rightarrow> time \<Rightarrow> err option" where
  "IsValid c now =
     (if After now (NextUpdate c) then Some ErrCrlIsExpired
      else if Before now (ThisUpdate c) then Some ErrCrlNotYetValid
      else None)"

text \<open>
  \<^verbatim>\<open>func NewCRL(rl *x509.RevocationList) (CRL, error)\<close>. A value of the interface
  \<^verbatim>\<open>CRL\<close> is \<open>Some c\<close>, or \<open>None\<close> for the nil interface.
\<close>

definition NewCRL :: "RevocationList option \<Rightarrow> time \<Rightarrow> RevocationList option \<times> err option" where
  "NewCRL rl now =
     (case rl of
        None \<Rightarrow> (None, Some ErrCrlCannotBeNil)
      | Some c \<Rightarrow>
          (case IsValid c now of
             Some e \<Rightarrow> (None, Some e)
           | None \<Rightarrow> (Some c, None)))"

text \<open>
  \<^verbatim>\<open>func (c *crl) Verify(certs ...*x509.Certificate) error\<close>. The signature check
  \<^verbatim>\<open>CheckSignatureFrom\<close> of \<^verbatim>\<open>crypto/x509\<close> is the parameter \<open>sig\<close>.
\<close>

fun Verify :: "(RevocationList \<Rightarrow> Certificate \<Rightarrow> err option) \<Rightarrow> RevocationList \<Rightarrow>
    Certificate list \<Rightarrow> err option" where
  "Verify sig c [] = Some ErrUnknownAuthorityError"
| "Verify sig c (cert # certs) =
     (case sig c cert of None \<Rightarrow> None | Some e \<Rightarrow> Verify sig c certs)"

text \<open>
  \<^verbatim>\<open>func (c *crl) IsRevoked(cert *x509.Certificate) bool\<close>: the loop over
  \<^verbatim>\<open>c.RevokedCertificateEntries\<close>, returning at the first entry whose serial number
  compares equal (\<^verbatim>\<open>Cmp(...) == 0\<close>).
\<close>

fun IsRevoked_loop :: "RevocationListEntry list \<Rightarrow> Certificate \<Rightarrow> bool" where
  "IsRevoked_loop [] cert = False"
| "IsRevoked_loop (entry # entries) cert =
     (if entry_SerialNumber entry = SerialNumber cert then True
      else IsRevoked_loop entries cert)"

definition IsRevoked :: "RevocationList \<Rightarrow> Certificate \<Rightarrow> bool" where
  "IsRevoked c cert = IsRevoked_loop (RevokedCertificateEntries c) cert"

section \<open>Package validate: the downloader\<close>

text \<open>
  A parsed \<^verbatim>\<open>*url.URL\<close>: its scheme and the text \<^verbatim>\<open>url.String()\<close> gives.
\<close>

record URL =
  Scheme :: string
  Text :: string

text \<open>
  What \<^verbatim>\<open>client.Do\<close> returns when it does not fail: the status code and the result of
  reading the body with \<^verbatim>\<open>io.ReadAll\<close>.
\<close>

record Response =
  StatusCode :: int
  Body :: "err + nat list"

text \<open>Every call of \<^verbatim>\<open>client.Do\<close> is one network fetch; a run keeps them in a log.\<close>

datatype fetch = FetchCRL URL | FetchSigner URL

text \<open>
  Everything outside the repository that the checker talks to: the standard library's URL,
  request, CRL and certificate parsers, the HTTP client (whose answer may depend on the
  fetches made before), the clock (read once for each downloaded list, indexed by the number
  of fetches made so far), the signature check and the trusted bundle.
\<close>

record world =
  url_Parse :: "string \<Rightarrow> err + URL"
  NewRequest :: "URL \<Rightarrow> err option"
  client_Do :: "fetch list \<Rightarrow> URL \<Rightarrow> err + Response"
  ParseRevocationList :: "nat list \<Rightarrow> err + RevocationList"
  ParseCertificate :: "nat list \<Rightarrow> err + Certificate"
  CheckSignatureFrom :: "RevocationList \<Rightarrow> Certificate \<Rightarrow> err option"
  time_Now :: "nat \<Rightarrow> time"
  tb_Contains :: "Certificate \<Rightarrow> bool"
  tb_VerifyCertificate :: "Certificate \<Rightarrow> err option"

text \<open>
  \<^verbatim>\<open>type downloader struct\<close>; the client is in the \<open>world\<close>, the timeout is in
  seconds.
\<close>

record downloader =
  enabled :: bool
  maxDownloads :: int
  timeout :: int

definition newDefaultDownloader :: downloader where
  "newDefaultDownloader = \<lparr>enabled = True, maxDownloads = 10, timeout = 2\<rparr>"

definition StatusOK :: int where
  "StatusOK = 200"

text \<open>
  \<^verbatim>\<open>func (d *downloader) downloadCRL(ctx, url) (crlutil.CRL, error)\<close>. The fetch log
  goes in and comes out; it grows by one entry exactly when \<^verbatim>\<open>d.client.Do\<close> is called.
\<close>

definition downloadCRL :: "world \<Rightarrow> downloader \<Rightarrow> fetch list \<Rightarrow> URL \<Rightarrow>
    (RevocationList option \<times> err option) \<times> fetch list" where
  "downloadCRL w d log u =
     (if \<not> enabled d then ((None, None), log)
      else case NewRequest w u of
        Some e \<Rightarrow> ((None, Some (Wrapf ''failed creating request: %w'' e)), log)
      | None \<Rightarrow>
         (let log' = log @ [FetchCRL u] in
          case client_Do w log u of
            Inl e \<Rightarrow> ((None, Some (WrapfQ ''failed retrieving CRL from %q: %w'' (Text u) e)), log')
          | Inr r \<Rightarrow>
             (if StatusCode r \<noteq> StatusOK
              then ((None, Some (ErrorfStatus ''http request to %q failed with status %d''
                      (Text u) (StatusCode r))), log')
              else case Body r of
                Inl e \<Rightarrow> ((None, Some (Wrapf ''failed reading CRL response body: %w'' e)), log')
              | Inr crlBytes \<Rightarrow>
                 (case ParseRevocationList w crlBytes of
                    Inl e \<Rightarrow> ((None, Some (WrapfQ ''failed parsing CRL from %q: %w'' (Text u) e)), log')
                  | Inr crl \<Rightarrow> (NewCRL (Some crl) (time_Now w (length log')), log')))))"

text \<open>
  \<^verbatim>\<open>func (d *downloader) downloadCRLSigner(ctx, url) (*x509.Certificate, error)\<close>. It
  returns either a non-nil certificate with a nil error or a nil certificate with an error,
  hence the sum.
\<close>

definition downloadCRLSigner :: "world \<Rightarrow> downloader \<Rightarrow> fetch list \<Rightarrow> URL \<Rightarrow>
    (err + Certificate) \<times> fetch list" where
  "downloadCRLSigner w d log u =
     (if \<not> enabled d then (Inl ErrDownloaderDisabled, log)
      else case NewRequest w u of
        Some e \<Rightarrow> (Inl (Wrapf ''failed creating request: %w'' e), log)
      | None \<Rightarrow>
         (let log' = log @ [FetchSigner u] in
          case client_Do w log u of
            Inl e \<Rightarrow> (Inl (WrapfQ ''failed retrieving certificate from %q: %w'' (Text u) e), log')
          | Inr r \<Rightarrow>
             (if StatusCode r \<noteq> StatusOK
              then (Inl (ErrorfStatus ''http request to %q failed with status %d''
                      (Text u) (StatusCode r)), log')
              else case Body r of
                Inl e \<Rightarrow> (Inl (Wrapf ''failed reading CRL response body: %w'' e), log')
              | Inr certBytes \<Rightarrow>
                 (case ParseCertificate w certBytes of
                    Inl e \<Rightarrow> (Inl (WrapfQ ''failed parsing certificate from %q: %w'' (Text u) e), log')
                  | Inr crt \<Rightarrow> (Inr crt, log')))))"

section \<open>Package validate: the EK checker\<close>

text \<open>
  The checker holds its downloader; its trusted bundle is part of the \<open>world\<close>, and its
  logger, which only prints, is left out.
\<close>

record ekchecker =
  downloader :: downloader

record CheckConfig =
  EK :: "Certificate option"
  SkipRevocationCheck :: bool

definition EKCertificate :: "int list" where
  "EKCertificate = [2, 23, 133, 8, 1]"

definition CheckAndSetDefaults :: "CheckConfig \<Rightarrow> err option" where
  "CheckAndSetDefaults c =
     (case EK c of
        None \<Rightarrow> Some (Errorf ''EK certificate must be provided'')
      | Some ek \<Rightarrow> None)"

text \<open>The loop of \<^verbatim>\<open>check\<close> that sets \<^verbatim>\<open>found\<close>.\<close>

fun found_loop :: "int list list \<Rightarrow> bool" where
  "found_loop [] = False"
| "found_loop (ext # exts) = (if ext = EKCertificate then True else found_loop exts)"

text \<open>
  \<^verbatim>\<open>func (c *ekchecker) check(cfg *CheckConfig) error\<close>. The configuration is
  passed by pointer and may be changed, so it is returned with the error. Reading
  \<^verbatim>\<open>cfg.EK.IsCA\<close> through a nil \<^verbatim>\<open>EK\<close> panics.
\<close>

definition check :: "ekchecker \<Rightarrow> CheckConfig \<Rightarrow> (err option \<times> CheckConfig) outcome" where
  "check c cfg =
     (case EK cfg of
        None \<Rightarrow> Panic
      | Some ek \<Rightarrow>
          if IsCA ek then Return (Some ErrEKCannotBeCA, cfg)
          else if length (IssuingCertificateURL ek) = 0
          then Return (Some (Errorf
            ''EK certificate does not contain AIA extension with issuing certificate URL''), cfg)
          else if int (length (IssuingCertificateURL ek)) > maxDownloads (downloader c)
          then Return (Some (ErrorfCount
            ''number of Issuers (%d) bigger than the maximum allowed number (%d) of downloads''
            (int (length (CRLDistributionPoints ek))) (maxDownloads (downloader c))), cfg)
          else if \<not> SkipRevocationCheck cfg \<and>
                  int (length (CRLDistributionPoints ek)) > maxDownloads (downloader c)
          then Return (Some (ErrorfCount
            ''number of CRLs (%d) bigger than the maximum allowed number (%d) of downloads''
            (int (length (CRLDistributionPoints ek))) (maxDownloads (downloader c))), cfg)
          else
            (let cfg' = (if length (CRLDistributionPoints ek) = 0
                         then cfg\<lparr>SkipRevocationCheck := True\<rparr> else cfg)
             in if \<not> found_loop (UnknownExtKeyUsage ek)
                then Return (Some (Errorf
                  ''EK certificate does not contain the required EK OID in Extended Key Usage''),
                  cfg')
                else Return (None, cfg')))"

text \<open>
  \<^verbatim>\<open>func (c *ekchecker) prepareUrls(urls []string) ([]*url.URL, error)\<close>; the second
  argument of the loop is the slice \<^verbatim>\<open>crlURLs\<close> built so far.
\<close>

fun prepareUrls_loop :: "world \<Rightarrow> string list \<Rightarrow> URL list \<Rightarrow> err + URL list" where
  "prepareUrls_loop w [] crlURLs = Inr crlURLs"
| "prepareUrls_loop w (u # urls) crlURLs =
     (case url_Parse w u of
        Inl e \<Rightarrow> Inl (WrapfQ ''failed to parse CRL URL %q: %w'' u e)
      | Inr parsedURL \<Rightarrow>
          if \<not> List.member [''http'', ''https''] (Scheme parsedURL)
          then prepareUrls_loop w urls crlURLs
          else prepareUrls_loop w urls (crlURLs @ [parsedURL]))"

definition prepareUrls :: "world \<Rightarrow> string list \<Rightarrow> err + URL list" where
  "prepareUrls w urls = prepareUrls_loop w urls []"

text \<open>
  \<^verbatim>\<open>func (c *ekchecker) getIssuerCertificates(downloader, cert)\<close>: all the issuers or
  the first error.
\<close>

fun issuers_loop :: "world \<Rightarrow> downloader \<Rightarrow> URL list \<Rightarrow> Certificate list \<Rightarrow> fetch list \<Rightarrow>
    (err + Certificate list) \<times> fetch list" where
  "issuers_loop w d [] issuers log = (Inr issuers, log)"
| "issuers_loop w d (u # issuerUrls) issuers log =
     (case downloadCRLSigner w d log u of
        (Inl e, log') \<Rightarrow> (Inl (Wrapf ''failed to download issuer certificate: %w'' e), log')
      | (Inr crt, log') \<Rightarrow> issuers_loop w d issuerUrls (issuers @ [crt]) log')"

definition getIssuerCertificates :: "world \<Rightarrow> downloader \<Rightarrow> Certificate \<Rightarrow> fetch list \<Rightarrow>
    (err + Certificate list) \<times> fetch list" where
  "getIssuerCertificates w d crt log =
     (case prepareUrls w (IssuingCertificateURL crt) of
        Inl e \<Rightarrow> (Inl (Wrapf ''failed to prepare issuer URLs: %w'' e), log)
      | Inr issuerUrls \<Rightarrow> issuers_loop w d issuerUrls [] log)"

text \<open>
  The loop of \<^verbatim>\<open>Check\<close> over the revocation list URLs. \<^verbatim>\<open>crl.Verify\<close> is a
  method call on the interface value \<^verbatim>\<open>downloadCRL\<close> returned: on the nil interface
  it is a nil dereference.
\<close>

fun crl_loop :: "world \<Rightarrow> downloader \<Rightarrow> Certificate \<Rightarrow> Certificate list \<Rightarrow> URL list \<Rightarrow>
    fetch list \<Rightarrow> err option outcome \<times> fetch list" where
  "crl_loop w d ek issuers [] log = (Return None, log)"
| "crl_loop w d ek issuers (u # crlUrls) log =
     (case downloadCRL w d log u of
        ((crl, Some e), log') \<Rightarrow>
          (Return (Some (WrapfQ ''failed to download CRL from %q: %w'' (Text u) e)), log')
      | ((None, None), log') \<Rightarrow> (Panic, log')
      | ((Some crl, None), log') \<Rightarrow>
          (case Verify (CheckSignatureFrom w) crl issuers of
             Some e \<Rightarrow> (Return (Some (Wrapf ''failed to verify CRL: %w'' e)), log')
           | None \<Rightarrow>
               if IsRevoked crl ek then (Return (Some ErrCertificateRevoked), log')
               else crl_loop w d ek issuers crlUrls log'))"

definition revocation :: "world \<Rightarrow> downloader \<Rightarrow> Certificate \<Rightarrow> Certificate list \<Rightarrow>
    fetch list \<Rightarrow> err option outcome \<times> fetch list" where
  "revocation w d ek issuers log =
     (case prepareUrls w (CRLDistributionPoints ek) of
        Inl e \<Rightarrow> (Return (Some (Wrapf ''failed to prepare CRL URLs: %w'' e)), log)
      | Inr crlUrls \<Rightarrow> crl_loop w d ek issuers crlUrls log)"

text \<open>
  \<^verbatim>\<open>func (c *ekchecker) Check(cfg CheckConfig) error\<close>. A run starts with an empty
  fetch log and returns the log with its result. The loop over
  \<^verbatim>\<open>filterIntermediates(issuers)\<close> only writes debug lines and is left out.
\<close>

definition Check :: "world \<Rightarrow> ekchecker \<Rightarrow> CheckConfig \<Rightarrow> err option outcome \<times> fetch list" where
  "Check w c cfg =
     (case CheckAndSetDefaults cfg of
        Some e \<Rightarrow> (Return (Some (Wrapf ''invalid check config: %w'' e)), [])
      | None \<Rightarrow>
         (case check c cfg of
            Panic \<Rightarrow> (Panic, [])
          | Return (Some e, cfg') \<Rightarrow> (Return (Some e), [])
          | Return (None, cfg') \<Rightarrow>
             (case EK cfg' of
                None \<Rightarrow> (Panic, [])
              | Some ek \<Rightarrow>
                 (case getIssuerCertificates w (downloader c) ek [] of
                    (Inl e, log) \<Rightarrow> (Return (Some e), log)
                  | (Inr issuers, log) \<Rightarrow>
                     (case (if \<not> SkipRevocationCheck cfg'
                            then revocation w (downloader c) ek issuers log
                            else (Return None, log)) of
                        (Panic, log') \<Rightarrow> (Panic, log')
                      | (Return (Some e), log') \<Rightarrow> (Return (Some e), log')
                      | (Return None, log') \<Rightarrow>
                         (case tb_VerifyCertificate w ek of
                            Some e \<Rightarrow> (Return (Some (WrapV ErrUntrustedCertificate e)), log')
                          | None \<Rightarrow> (Return None, log')))))))"

section \<open>Package tpm: the key locator\<close>

datatype TPMAlgID = TPMAlgRSA | TPMAlgECC | TPMAlgOther nat

text \<open>
  \<^verbatim>\<open>attest.EKCertTemplate\<close>, with the result of its method \<^verbatim>\<open>Type()\<close> as a field,
  and \<^verbatim>\<open>endorsement.EK\<close>, whose \<^verbatim>\<open>Certificate\<close> and \<^verbatim>\<open>Public\<close> are pointers.
\<close>

record EKCertTemplate =
  Type :: TPMAlgID
  Index :: nat

record endorsement_EK =
  Certificate :: "Certificate option"
  Public :: "TPMAlgID option"

definition EK_zero :: endorsement_EK where
  "EK_zero = \<lparr>Certificate = None, Public = None\<rparr>"

definition EKCertTemplate_zero :: EKCertTemplate where
  "EKCertTemplate_zero = \<lparr>Type = TPMAlgOther 0, Index = 0\<rparr>"

record Manufacturer =
  ASCII :: string
  Name :: string

record EKResponse =
  resp_Certificate :: "Certificate option"
  resp_Manufacturer :: Manufacturer

text \<open>Each call into the hardware module is an event of the run's trace.\<close>

datatype tpm_event =
    EvOpenTPM
  | EvInfo
  | EvSearchAvailableCertificates
  | EvPersistedEKs
  | EvGetEK TPMAlgID
  | EvEK EKCertTemplate
  | EvClose

text \<open>
  The hardware module, as the library \<^verbatim>\<open>attest\<close> shows it: what opening, \<^verbatim>\<open>Info\<close>,
  the two enumerations, \<^verbatim>\<open>tpm.EK\<close> (which may depend on the calls made before) and
  \<^verbatim>\<open>Close\<close> return. \<^verbatim>\<open>tpm.EK\<close> returns a pair, as in Go.
\<close>

record tpm_world =
  OpenTPM :: "err option"
  tpm_Info :: "err + Manufacturer"
  SearchAvailableCertificates :: "EKCertTemplate list"
  PersistedEKs :: "EKCertTemplate list"
  tpm_EK :: "tpm_event list \<Rightarrow> EKCertTemplate \<Rightarrow> endorsement_EK \<times> err option"
  tpm_Close :: "err option"

text \<open>\<^verbatim>\<open>fmt.Errorf("...: %w", e)\<close> where \<^verbatim>\<open>e\<close> may be nil.\<close>

definition Errorf_w :: "string \<Rightarrow> err option \<Rightarrow> err" where
  "Errorf_w m e = (case e of None \<Rightarrow> WrapfNil m | Some e' \<Rightarrow> Wrapf m e')"

text \<open>The loop of \<^verbatim>\<open>getEK\<close> that picks the first template of the algorithm.\<close>

fun template_loop :: "TPMAlgID \<Rightarrow> EKCertTemplate list \<Rightarrow> EKCertTemplate \<Rightarrow> EKCertTemplate" where
  "template_loop alg [] template = template"
| "template_loop alg (t # ts) template =
     (if Type t = alg then t else template_loop alg ts template)"

text \<open>\<^verbatim>\<open>func getEK(tpm, alg, availableCerts) (endorsement.EK, error)\<close>.\<close>

definition getEK :: "tpm_world \<Rightarrow> tpm_event list \<Rightarrow> TPMAlgID \<Rightarrow> EKCertTemplate list \<Rightarrow>
    (endorsement_EK \<times> err option) \<times> tpm_event list" where
  "getEK tpm tr alg availableCerts =
     (let tr1 = tr @ [EvGetEK alg] in
      if list_ex (\<lambda>t. Type t = alg) availableCerts
      then (let template = template_loop alg availableCerts EKCertTemplate_zero
            in (tpm_EK tpm tr1 template, tr1 @ [EvEK template]))
      else ((EK_zero, Some ErrEKCertNotFound), tr1))"

text \<open>
  The end of \<^verbatim>\<open>search\<close>: the log line reads \<^verbatim>\<open>ek.Certificate.Issuer\<close> and
  \<^verbatim>\<open>*ek.Public\<close>, then \<^verbatim>\<open>return ek, nil\<close>.
\<close>

definition select_ek :: "endorsement_EK \<Rightarrow> (endorsement_EK \<times> err option) outcome" where
  "select_ek ek =
     (case Certificate ek of
        None \<Rightarrow> Panic
      | Some crt \<Rightarrow> (case Public ek of None \<Rightarrow> Panic | Some pub \<Rightarrow> Return (ek, None)))"

text \<open>
  \<^verbatim>\<open>func search(logger, tpm) (endorsement.EK, error)\<close>. In the branch without
  persisted handles, the block guarded by \<^verbatim>\<open>errors.Is(errGet, attest.ErrEKCertNotFound)\<close>
  either returns (the first component below is \<open>Some\<close>) or falls out of the
  \<^verbatim>\<open>if\<close> with the value \<^verbatim>\<open>errGet\<close> has by then; the statement after the
  \<^verbatim>\<open>if\<close> is the return of \<^verbatim>\<open>"failed to get EK ECC cert: %w"\<close>.
\<close>

definition search :: "tpm_world \<Rightarrow> tpm_event list \<Rightarrow>
    (endorsement_EK \<times> err option) outcome \<times> tpm_event list" where
  "search tpm tr =
     (let availableCerts = SearchAvailableCertificates tpm;
          tr1 = tr @ [EvSearchAvailableCertificates]
      in if length availableCerts = 0
         then (Return (EK_zero, Some (Errorf ''no EK certificates available in TPM'')), tr1)
         else
          (let templates = PersistedEKs tpm; tr2 = tr1 @ [EvPersistedEKs] in
           case templates of
             template # rest \<Rightarrow>
               (case tpm_EK tpm tr2 template of
                  (ek, errGet) \<Rightarrow> (select_ek ek, tr2 @ [EvEK template]))
           | [] \<Rightarrow>
               (case getEK tpm tr2 TPMAlgECC availableCerts of
                  ((ek, None), tr3) \<Rightarrow> (select_ek ek, tr3)
                | ((ek, Some e), tr3) \<Rightarrow>
                    (case (if errors_Is e ErrEKCertNotFound
                           then (case getEK tpm tr3 TPMAlgRSA availableCerts of
                                   ((ek', Some e'), tr4) \<Rightarrow>
                                     (Some (Return (EK_zero,
                                        Some (Wrapf ''failed to get any EK cert: %w'' e'))),
                                      Some e', tr4)
                                 | ((ek', None), tr4) \<Rightarrow> (None, None, tr4))
                           else (None, Some e, tr3)) of
                       (Some returned, errGet, tr') \<Rightarrow> (returned, tr')
                     | (None, errGet, tr') \<Rightarrow>
                         (Return (EK_zero, Some (Errorf_w ''failed to get EK ECC cert: %w'' errGet)),
                          tr')))))"

text \<open>
  The first attempt of \<^verbatim>\<open>search\<close> when no handle is persisted: the call
  \<^verbatim>\<open>getEK(tpm, tpm2.TPMAlgECC, availableCerts)\<close>, after the two enumerations.
\<close>

definition ecc_attempt :: "tpm_world \<Rightarrow> tpm_event list \<Rightarrow>
    (endorsement_EK \<times> err option) \<times> tpm_event list" where
  "ecc_attempt tpm tr =
     getEK tpm (tr @ [EvSearchAvailableCertificates] @ [EvPersistedEKs]) TPMAlgECC
       (SearchAvailableCertificates tpm)"

text \<open>
  The function deferred by \<^verbatim>\<open>GetEKCertificate\<close>: it closes the module and, when
  closing fails, assigns to the local variable \<^verbatim>\<open>err\<close>. It returns the new value of
  that variable with the trace.
\<close>

definition deferred_close :: "tpm_world \<Rightarrow> err option \<Rightarrow> tpm_event list \<Rightarrow>
    err option \<times> tpm_event list" where
  "deferred_close tpm local_err tr =
     (case tpm_Close tpm of
        Some closeErr \<Rightarrow> (Some (CloseFailed closeErr local_err), tr @ [EvClose])
      | None \<Rightarrow> (local_err, tr @ [EvClose]))"

text \<open>
  The body of \<^verbatim>\<open>GetEKCertificate\<close> after the \<^verbatim>\<open>defer\<close> statement: the results
  its \<^verbatim>\<open>return\<close> statement evaluates (or a panic), the value of the local variable
  \<^verbatim>\<open>err\<close> at that point, and the trace.
\<close>

definition GetEKCertificate_body :: "tpm_world \<Rightarrow> tpm_event list \<Rightarrow>
    (EKResponse option \<times> err option) outcome \<times> err option \<times> tpm_event list" where
  "GetEKCertificate_body tpm tr =
     (case tpm_Info tpm of
        Inl e \<Rightarrow> (Return (None, Some (Wrapf ''failed to get TPM info: %w'' e)), Some e, tr @ [EvInfo])
      | Inr info \<Rightarrow>
          (case search tpm (tr @ [EvInfo]) of
             (Panic, tr') \<Rightarrow> (Panic, None, tr')
           | (Return (ek, Some e), tr') \<Rightarrow> (Return (None, Some e), Some e, tr')
           | (Return (ek, None), tr') \<Rightarrow>
               (Return (Some \<lparr>resp_Certificate = Certificate ek, resp_Manufacturer = info\<rparr>, None),
                None, tr')))"

text \<open>
  \<^verbatim>\<open>func GetEKCertificate(cfg TPMConfig) (*EKResponse, error)\<close>. Its results have no
  names: the \<^verbatim>\<open>return\<close> statement fixes them before the deferred function runs, and
  the deferred assignment to the local \<^verbatim>\<open>err\<close> does not reach them.
  \<^verbatim>\<open>cfg.CheckAndSetDefaults()\<close> always returns nil.
\<close>

definition GetEKCertificate :: "tpm_world \<Rightarrow>
    (EKResponse option \<times> err option) outcome \<times> tpm_event list" where
  "GetEKCertificate tpm =
     (case OpenTPM tpm of
        Some e \<Rightarrow> (Return (None, Some (Wrapf ''failed to open TPM: %w'' e)), [EvOpenTPM])
      | None \<Rightarrow>
          (case GetEKCertificate_body tpm [EvOpenTPM] of
             (results, local_err, tr) \<Rightarrow>
               (case deferred_close tpm local_err tr of
                  (local_err', tr') \<Rightarrow> (results, tr'))))"

section \<open>The order of the structural pre-checks, as the specification words it\<close>

text \<open>
  The specification lists the rejecting pre-checks in a fixed order and says that the first
  failing one wins. \<open>spec_prechecks\<close> is that list, \<open>spec_violated\<close> says when a
  certificate violates a check under fetch ceiling \<open>N\<close>, and \<open>rejection\<close> is the error
  \<^verbatim>\<open>check\<close> has for it. Zero distribution points is not in the list: it rejects
  nothing.
\<close>

datatype precheck =
    IsCAFlag
  | NoIssuerURL
  | IssuerCeiling
  | DistributionPointCeiling
  | MissingEKOid

definition spec_prechecks :: "precheck list" where
  "spec_prechecks = [IsCAFlag, NoIssuerURL, IssuerCeiling, DistributionPointCeiling, MissingEKOid]"

fun spec_violated :: "int \<Rightarrow> bool \<Rightarrow> Certificate \<Rightarrow> precheck \<Rightarrow> bool" where
  "spec_violated N skip ek IsCAFlag = IsCA ek"
| "spec_violated N skip ek NoIssuerURL = (IssuingCertificateURL ek = [])"
| "spec_violated N skip ek IssuerCeiling = (N < int (length (IssuingCertificateURL ek)))"
| "spec_violated N skip ek DistributionPointCeiling =
     (\<not> skip \<and> N < int (length (CRLDistributionPoints ek)))"
| "spec_violated N skip ek MissingEKOid = (\<not> List.member (UnknownExtKeyUsage ek) [2, 23, 133, 8, 1])"

fun rejection :: "int \<Rightarrow> Certificate \<Rightarrow> precheck \<Rightarrow> err" where
  "rejection N ek IsCAFlag = ErrEKCannotBeCA"
| "rejection N ek NoIssuerURL =
     Errorf ''EK certificate does not contain AIA extension with issuing certificate URL''"
| "rejection N ek IssuerCeiling =
     ErrorfCount ''number of Issuers (%d) bigger than the maximum allowed number (%d) of downloads''
       (int (length (CRLDistributionPoints ek))) N"
| "rejection N ek DistributionPointCeiling =
     ErrorfCount ''number of CRLs (%d) bigger than the maximum allowed number (%d) of downloads''
       (int (length (CRLDistributionPoints ek))) N"
| "rejection N ek MissingEKOid =
     Errorf ''EK certificate does not contain the required EK OID in Extended Key Usage''"

definition first_violated :: "int \<Rightarrow> bool \<Rightarrow> Certificate \<Rightarrow> precheck option" where
  "first_violated N skip ek = List.find (spec_violated N skip ek) spec_prechecks"

section \<open>Counting fetches\<close>

fun is_signer_fetch :: "fetch \<Rightarrow> bool" where
  "is_signer_fetch (FetchSigner u) = True"
| "is_signer_fetch (FetchCRL u) = False"

fun is_crl_fetch :: "fetch \<Rightarrow> bool" where
  "is_crl_fetch (FetchCRL u) = True"
| "is_crl_fetch (FetchSigner u) = False"

definition signer_fetches :: "fetch list \<Rightarrow> nat" where
  "signer_fetches log = length (filter is_signer_fetch log)"

definition crl_fetches :: "fetch list \<Rightarrow> nat" where
  "crl_fetches log = length (filter is_crl_fetch log)"

section \<open>Concrete runs\<close>

text \<open>
  A small world for concrete runs. Its URL parser takes the text before the first colon as
  the scheme, which is what \<^verbatim>\<open>url.Parse\<close> does on the URLs used below; every request
  is answered with status 200, every body parses, every list is valid at the time of the
  run, is signed by every issuer and revokes nothing, and the bundle trusts every
  certificate.
\<close>

definition sample_Parse :: "string \<Rightarrow> err + URL" where
  "sample_Parse s =
     (if List.member s (CHR '':'')
      then Inr \<lparr>Scheme = takeWhile (\<lambda>c. c \<noteq> CHR '':'') s, Text = s\<rparr>
      else Inr \<lparr>Scheme = [], Text = s\<rparr>)"

definition sample_issuer :: Certificate where
  "sample_issuer = \<lparr>IsCA = True, IssuingCertificateURL = [], CRLDistributionPoints = [],
     UnhandledCriticalExtensions = [], UnknownExtKeyUsage = [], SerialNumber = 1, Raw = [1]\<rparr>"

definition sample_list :: RevocationList where
  "sample_list = \<lparr>ThisUpdate = 10, NextUpdate = 90, RevokedCertificateEntries = [],
     Signature = [2]\<rparr>"

definition sample_world :: world where
  "sample_world = \<lparr>
     url_Parse = sample_Parse,
     NewRequest = (\<lambda>u. None),
     client_Do = (\<lambda>log u. Inr \<lparr>StatusCode = 200, Body = Inr [0]\<rparr>),
     ParseRevocationList = (\<lambda>b. Inr sample_list),
     ParseCertificate = (\<lambda>b. Inr sample_issuer),
     CheckSignatureFrom = (\<lambda>c crt. None),
     time_Now = (\<lambda>n. 50),
     tb_Contains = (\<lambda>crt. True),
     tb_VerifyCertificate = (\<lambda>crt. None)\<rparr>"

definition sample_ek :: "string list \<Rightarrow> string list \<Rightarrow> Certificate" where
  "sample_ek issuerUrls crlUrls = \<lparr>IsCA = False, IssuingCertificateURL = issuerUrls,
     CRLDistributionPoints = crlUrls, UnhandledCriticalExtensions = [],
     UnknownExtKeyUsage = [[2, 23, 133, 8, 1]], SerialNumber = 7, Raw = [7]\<rparr>"

definition sample_checker :: "bool \<Rightarrow> int \<Rightarrow> ekchecker" where
  "sample_checker on N = \<lparr>downloader = \<lparr>enabled = on, maxDownloads = N, timeout = 2\<rparr>\<rparr>"

text \<open>
  A hardware module for concrete runs: it opens, names its manufacturer, holds the given
  certificate templates and no persisted handle; what \<^verbatim>\<open>tpm.EK\<close> and
  \<^verbatim>\<open>Close\<close> return is given.
\<close>

definition sample_endorsement :: "EKCertTemplate \<Rightarrow> endorsement_EK" where
  "sample_endorsement t =
     \<lparr>Certificate = Some (sample_ek [''http://pki/signer.cer''] []), Public = Some (Type t)\<rparr>"

definition sample_tpm :: "EKCertTemplate list \<Rightarrow>
    (EKCertTemplate \<Rightarrow> endorsement_EK \<times> err option) \<Rightarrow> err option \<Rightarrow> tpm_world" where
  "sample_tpm available ek_result closing = \<lparr>
     OpenTPM = None,
     tpm_Info = Inr \<lparr>ASCII = ''IFX'', Name = ''Infineon''\<rparr>,
     SearchAvailableCertificates = available,
     PersistedEKs = [],
     tpm_EK = (\<lambda>tr t. ek_result t),
     tpm_Close = closing\<rparr>"

section \<open>The revocation list wrapper\<close>

text \<open>
  C7: the validity check returns no error exactly when the evaluation time is in the closed
  interval from \<^verbatim>\<open>ThisUpdate\<close> to \<^verbatim>\<open>NextUpdate\<close>, and an error at every
  time outside it: the expired error exactly when the time is after \<^verbatim>\<open>NextUpdate\<close>,
  the not-yet-valid error exactly when the time is before \<^verbatim>\<open>ThisUpdate\<close> and not
  after \<^verbatim>\<open>NextUpdate\<close>, hence at every time before \<^verbatim>\<open>ThisUpdate\<close> when
  the interval is not empty. The list's signature has no part in the answer.
\<close>

theorem IsValid_window:
  "(IsValid c now = None \<longleftrightarrow> now \<in> {ThisUpdate c .. NextUpdate c})
   \<and> (IsValid c now = Some ErrCrlIsExpired \<longleftrightarrow> NextUpdate c < now)
   \<and> (IsValid c now = Some ErrCrlNotYetValid \<longleftrightarrow> now < ThisUpdate c \<and> now \<le> NextUpdate c)
   \<and> IsValid (c\<lparr>Signature := s\<rparr>) now = IsValid c now
   \<and> (now \<notin> {ThisUpdate c .. NextUpdate c} \<longrightarrow>
        IsValid c now = Some ErrCrlIsExpired \<or> IsValid c now = Some ErrCrlNotYetValid)
   \<and> (After now (NextUpdate c) \<longrightarrow> IsValid c now = Some ErrCrlIsExpired)
   \<and> (ThisUpdate c \<le> NextUpdate c \<and> Before now (ThisUpdate c) \<longrightarrow>
        IsValid c now = Some ErrCrlNotYetValid)"
  by (auto simp: IsValid_def After_def Before_def)

text \<open>
  C7 at the sample list, valid from 10 to 90: just past its end, just before its start
  and at its end.
\<close>

theorem IsValid_window_witness:
  "ThisUpdate sample_list \<le> NextUpdate sample_list
   \<and> 91 \<notin> {ThisUpdate sample_list .. NextUpdate sample_list}
   \<and> After 91 (NextUpdate sample_list)
   \<and> IsValid sample_list 91 = Some ErrCrlIsExpired
   \<and> 9 \<notin> {ThisUpdate sample_list .. NextUpdate sample_list}
   \<and> Before 9 (ThisUpdate sample_list)
   \<and> IsValid sample_list 9 = Some ErrCrlNotYetValid
   \<and> 90 \<in> {ThisUpdate sample_list .. NextUpdate sample_list}
   \<and> IsValid sample_list 90 = None"
  using IsValid_window [of sample_list 91] IsValid_window [of sample_list 90]
    IsValid_window [of sample_list 9]
  by (simp add: sample_list_def After_def Before_def)

lemma IsRevoked_loop_iff:
  "IsRevoked_loop entries cert \<longleftrightarrow> SerialNumber cert \<in> set (map entry_SerialNumber entries)"
  by (induction entries) auto

text \<open>
  C8: \<^verbatim>\<open>IsRevoked\<close> is true if and only if the certificate's serial number is the
  serial number of an entry of the list; on a list without entries it is false for every
  certificate.
\<close>

theorem IsRevoked_iff_serial_listed:
  "(IsRevoked c cert \<longleftrightarrow>
      SerialNumber cert \<in> entry_SerialNumber ` set (RevokedCertificateEntries c))
   \<and> IsRevoked (c\<lparr>RevokedCertificateEntries := []\<rparr>) cert = False"
  by (simp add: IsRevoked_def IsRevoked_loop_iff)

text \<open>C8 at a list revoking the serial numbers 3 and 7, for the sample certificate 7.\<close>

theorem IsRevoked_iff_serial_listed_witness:
  "IsRevoked (sample_list\<lparr>RevokedCertificateEntries :=
       [\<lparr>entry_SerialNumber = 3, RevocationTime = 20\<rparr>,
        \<lparr>entry_SerialNumber = 7, RevocationTime = 30\<rparr>]\<rparr>) (sample_ek [] [])
   \<and> \<not> IsRevoked (sample_list\<lparr>RevokedCertificateEntries := []\<rparr>) (sample_ek [] [])"
  using IsRevoked_iff_serial_listed [of "sample_list\<lparr>RevokedCertificateEntries :=
       [\<lparr>entry_SerialNumber = 3, RevocationTime = 20\<rparr>,
        \<lparr>entry_SerialNumber = 7, RevocationTime = 30\<rparr>]\<rparr>" "sample_ek [] []"]
    IsRevoked_iff_serial_listed [of sample_list "sample_ek [] []"]
  by (simp add: sample_ek_def)

section \<open>The downloader\<close>

text \<open>
  C6: for every URL, a disabled downloader's \<^verbatim>\<open>downloadCRL\<close> returns no list and no
  error and leaves the fetch log as it was, and its \<^verbatim>\<open>downloadCRLSigner\<close> returns the
  error \<^verbatim>\<open>ErrDownloaderDisabled\<close>, also without a fetch.
\<close>

theorem disabled_downloader_paths:
  assumes "\<not> enabled d"
  shows "downloadCRL w d log u = ((None, None), log)
       \<and> downloadCRLSigner w d log u = (Inl ErrDownloaderDisabled, log)"
  using assms by (simp add: downloadCRL_def downloadCRLSigner_def)

text \<open>C6 at the default downloader switched off.\<close>

theorem disabled_downloader_paths_witness:
  "\<not> enabled (newDefaultDownloader\<lparr>enabled := False\<rparr>)
   \<and> downloadCRL sample_world (newDefaultDownloader\<lparr>enabled := False\<rparr>) []
        \<lparr>Scheme = ''http'', Text = ''http://pki/ek.crl''\<rparr> = ((None, None), [])
   \<and> downloadCRLSigner sample_world (newDefaultDownloader\<lparr>enabled := False\<rparr>) []
        \<lparr>Scheme = ''http'', Text = ''http://pki/ek.crl''\<rparr> = (Inl ErrDownloaderDisabled, [])"
  using disabled_downloader_paths [of "newDefaultDownloader\<lparr>enabled := False\<rparr>" sample_world
      "[]" "\<lparr>Scheme = ''http'', Text = ''http://pki/ek.crl''\<rparr>"]
  by (simp add: newDefaultDownloader_def)

section \<open>The EK checker\<close>

text \<open>
  C2: when the certificate of the configuration has the CA flag set, \<^verbatim>\<open>Check\<close> returns
  \<^verbatim>\<open>ErrEKCannotBeCA\<close> and its fetch log is empty.
\<close>

theorem Check_rejects_CA_before_fetch:
  assumes "EK cfg = Some ek" and "IsCA ek"
  shows "Check w c cfg = (Return (Some ErrEKCannotBeCA), [])"
  using assms by (simp add: Check_def CheckAndSetDefaults_def check_def)

text \<open>C2 at the sample certificate with the CA flag set, under the default downloader.\<close>

theorem Check_rejects_CA_before_fetch_witness:
  "EK \<lparr>EK = Some ((sample_ek [''http://pki/signer.cer''] [''http://pki/ek.crl''])\<lparr>IsCA := True\<rparr>),
       SkipRevocationCheck = False\<rparr>
     = Some ((sample_ek [''http://pki/signer.cer''] [''http://pki/ek.crl''])\<lparr>IsCA := True\<rparr>)
   \<and> IsCA ((sample_ek [''http://pki/signer.cer''] [''http://pki/ek.crl''])\<lparr>IsCA := True\<rparr>)
   \<and> Check sample_world (sample_checker True 10)
        \<lparr>EK = Some ((sample_ek [''http://pki/signer.cer''] [''http://pki/ek.crl''])\<lparr>IsCA := True\<rparr>),
         SkipRevocationCheck = False\<rparr>
     = (Return (Some ErrEKCannotBeCA), [])"
  using Check_rejects_CA_before_fetch [of
      "\<lparr>EK = Some ((sample_ek [''http://pki/signer.cer''] [''http://pki/ek.crl''])\<lparr>IsCA := True\<rparr>),
        SkipRevocationCheck = False\<rparr>"
      "(sample_ek [''http://pki/signer.cer''] [''http://pki/ek.crl''])\<lparr>IsCA := True\<rparr>"
      sample_world "sample_checker True 10"]
  by simp

lemma found_loop_member: "found_loop exts \<longleftrightarrow> List.member exts [2, 23, 133, 8, 1]"
  by (induction exts) (auto simp: EKCertificate_def)

lemma rejection_inj: "rejection N ek p = rejection N ek q \<Longrightarrow> p = q"
  by (cases p; cases q) simp_all

text \<open>
  C3: on a configuration with a certificate, \<^verbatim>\<open>check\<close> returns the error of the first
  check, in the order CA flag, no issuer URL, issuer URLs over the ceiling, distribution
  points over the ceiling with revocation enabled, missing EK OID, that the certificate
  violates, and no error when it violates none; and \<^verbatim>\<open>Check\<close> returns that same
  error, before any fetch. Zero distribution points reject nothing: they only set
  \<^verbatim>\<open>SkipRevocationCheck\<close>, once the first four checks have passed, and then
  \<^verbatim>\<open>Check\<close> goes on to fetch the issuers and to ask the trusted bundle, without the
  revocation step.
\<close>

theorem check_first_violated_wins:
  assumes "EK cfg = Some ek"
  shows "check c cfg =
      Return (map_option (rejection (maxDownloads (downloader c)) ek)
                (first_violated (maxDownloads (downloader c)) (SkipRevocationCheck cfg) ek),
              if CRLDistributionPoints ek = [] \<and>
                 first_violated (maxDownloads (downloader c)) (SkipRevocationCheck cfg) ek
                   \<in> {None, Some MissingEKOid}
              then cfg\<lparr>SkipRevocationCheck := True\<rparr> else cfg)
    \<and> (first_violated (maxDownloads (downloader c)) (SkipRevocationCheck cfg) ek = Some p \<longrightarrow>
         Check w c cfg = (Return (Some (rejection (maxDownloads (downloader c)) ek p)), []))
    \<and> (first_violated (maxDownloads (downloader c)) (SkipRevocationCheck cfg) ek = None \<and>
        CRLDistributionPoints ek = [] \<longrightarrow>
         Check w c cfg =
           (case getIssuerCertificates w (downloader c) ek [] of
              (Inl e, log) \<Rightarrow> (Return (Some e), log)
            | (Inr issuers, log) \<Rightarrow>
                (case tb_VerifyCertificate w ek of
                   Some e \<Rightarrow> (Return (Some (WrapV ErrUntrustedCertificate e)), log)
                 | None \<Rightarrow> (Return None, log))))"
proof -
  let ?N = "maxDownloads (downloader c)"
  let ?fv = "first_violated ?N (SkipRevocationCheck cfg) ek"
  have chk: "check c cfg =
      Return (map_option (rejection ?N ek) ?fv,
              if CRLDistributionPoints ek = [] \<and> ?fv \<in> {None, Some MissingEKOid}
              then cfg\<lparr>SkipRevocationCheck := True\<rparr> else cfg)"
    using assms
    by (simp add: check_def first_violated_def spec_prechecks_def found_loop_member Let_def)
  have rej: "?fv = Some p \<longrightarrow> Check w c cfg = (Return (Some (rejection ?N ek p)), [])"
    using assms by (simp add: Check_def CheckAndSetDefaults_def chk)
  have zero: "?fv = None \<and> CRLDistributionPoints ek = [] \<longrightarrow>
         Check w c cfg =
           (case getIssuerCertificates w (downloader c) ek [] of
              (Inl e, log) \<Rightarrow> (Return (Some e), log)
            | (Inr issuers, log) \<Rightarrow>
                (case tb_VerifyCertificate w ek of
                   Some e \<Rightarrow> (Return (Some (WrapV ErrUntrustedCertificate e)), log)
                 | None \<Rightarrow> (Return None, log)))"
    using assms
    by (auto simp: Check_def CheckAndSetDefaults_def chk split: prod.splits sum.splits option.splits)
  from chk rej zero show ?thesis by blast
qed

text \<open>
  C3 at a CA certificate without issuer URL and without the EK OID (the first violated
  check is the CA flag, and \<^verbatim>\<open>Check\<close> returns its error without a fetch), and at a
  certificate with an issuer URL, the OID and no distribution point (nothing is violated,
  the revocation check is switched off, and \<^verbatim>\<open>Check\<close> succeeds after one issuer
  fetch).
\<close>

theorem check_first_violated_wins_witness:
  "check (sample_checker True 10)
      \<lparr>EK = Some ((sample_ek [] [])\<lparr>IsCA := True, UnknownExtKeyUsage := []\<rparr>),
       SkipRevocationCheck = False\<rparr>
     = Return (Some ErrEKCannotBeCA,
         \<lparr>EK = Some ((sample_ek [] [])\<lparr>IsCA := True, UnknownExtKeyUsage := []\<rparr>),
          SkipRevocationCheck = False\<rparr>)
   \<and> first_violated 10 False ((sample_ek [] [])\<lparr>IsCA := True, UnknownExtKeyUsage := []\<rparr>)
     = Some IsCAFlag
   \<and> Check sample_world (sample_checker True 10)
      \<lparr>EK = Some ((sample_ek [] [])\<lparr>IsCA := True, UnknownExtKeyUsage := []\<rparr>),
       SkipRevocationCheck = False\<rparr>
     = (Return (Some ErrEKCannotBeCA), [])
   \<and> check (sample_checker True 10)
      \<lparr>EK = Some (sample_ek [''http://pki/signer.cer''] []), SkipRevocationCheck = False\<rparr>
     = Return (None,
         \<lparr>EK = Some (sample_ek [''http://pki/signer.cer''] []), SkipRevocationCheck = True\<rparr>)
   \<and> first_violated 10 False (sample_ek [''http://pki/signer.cer''] []) = None
   \<and> CRLDistributionPoints (sample_ek [''http://pki/signer.cer''] []) = []
   \<and> Check sample_world (sample_checker True 10)
      \<lparr>EK = Some (sample_ek [''http://pki/signer.cer''] []), SkipRevocationCheck = False\<rparr>
     = (Return None, [FetchSigner \<lparr>Scheme = ''http'', Text = ''http://pki/signer.cer''\<rparr>])"
proof -
  let ?ca = "(sample_ek [] [])\<lparr>IsCA := True, UnknownExtKeyUsage := []\<rparr>"
  let ?ok = "sample_ek [''http://pki/signer.cer''] []"
  have N: "maxDownloads (downloader (sample_checker True 10)) = 10"
    by (simp add: sample_checker_def)
  have fca: "first_violated 10 False ?ca = Some IsCAFlag"
    by (simp add: first_violated_def spec_prechecks_def sample_ek_def)
  have fok: "first_violated 10 False ?ok = None"
    by (simp add: first_violated_def spec_prechecks_def sample_ek_def)
  have zero: "CRLDistributionPoints ?ok = []" by (simp add: sample_ek_def)
  have gi: "getIssuerCertificates sample_world (downloader (sample_checker True 10)) ?ok []
      = (Inr [sample_issuer], [FetchSigner \<lparr>Scheme = ''http'', Text = ''http://pki/signer.cer''\<rparr>])"
    by code_simp
  have tb: "tb_VerifyCertificate sample_world ?ok = None" by (simp add: sample_world_def)
  from check_first_violated_wins [where cfg = "\<lparr>EK = Some ?ca, SkipRevocationCheck = False\<rparr>"
      and ek = ?ca and c = "sample_checker True 10" and p = IsCAFlag and w = sample_world] N fca
  have a: "check (sample_checker True 10) \<lparr>EK = Some ?ca, SkipRevocationCheck = False\<rparr>
       = Return (Some ErrEKCannotBeCA, \<lparr>EK = Some ?ca, SkipRevocationCheck = False\<rparr>)
     \<and> Check sample_world (sample_checker True 10) \<lparr>EK = Some ?ca, SkipRevocationCheck = False\<rparr>
       = (Return (Some ErrEKCannotBeCA), [])"
    by (simp add: sample_ek_def)
  from check_first_violated_wins [where cfg = "\<lparr>EK = Some ?ok, SkipRevocationCheck = False\<rparr>"
      and ek = ?ok and c = "sample_checker True 10" and p = IsCAFlag and w = sample_world]
    N fok zero gi tb
  have b: "check (sample_checker True 10) \<lparr>EK = Some ?ok, SkipRevocationCheck = False\<rparr>
       = Return (None, \<lparr>EK = Some ?ok, SkipRevocationCheck = True\<rparr>)
     \<and> Check sample_world (sample_checker True 10) \<lparr>EK = Some ?ok, SkipRevocationCheck = False\<rparr>
       = (Return None, [FetchSigner \<lparr>Scheme = ''http'', Text = ''http://pki/signer.cer''\<rparr>])"
    by simp
  from a b fca fok zero show ?thesis by simp
qed

lemma prepareUrls_loop_length:
  "prepareUrls_loop w urls acc = Inr res \<Longrightarrow> length res \<le> length acc + length urls"
proof (induction urls arbitrary: acc)
  case Nil
  then show ?case by simp
next
  case (Cons u urls)
  then show ?case
    by (fastforce split: sum.splits if_splits)
qed

lemma prepareUrls_length:
  "prepareUrls w urls = Inr res \<Longrightarrow> length res \<le> length urls"
  using prepareUrls_loop_length [of w urls "[]" res] by (simp add: prepareUrls_def)

lemma downloadCRLSigner_log:
  "downloadCRLSigner w d log u = (r, log') \<Longrightarrow> log' = log \<or> log' = log @ [FetchSigner u]"
  by (auto simp: downloadCRLSigner_def Let_def split: if_splits option.splits sum.splits)

lemma downloadCRL_log:
  "downloadCRL w d log u = (r, log') \<Longrightarrow> log' = log \<or> log' = log @ [FetchCRL u]"
  by (auto simp: downloadCRL_def Let_def split: if_splits option.splits sum.splits prod.splits)

lemma issuers_loop_log:
  "issuers_loop w d urls issuers log = (r, log') \<Longrightarrow>
   \<exists>new. log' = log @ new \<and> length new \<le> length urls \<and> list_all is_signer_fetch new"
proof (induction urls arbitrary: issuers log)
  case Nil
  then show ?case by simp
next
  case (Cons u urls)
  obtain x log1 where d: "downloadCRLSigner w d log u = (x, log1)"
    by (cases "downloadCRLSigner w d log u")
  from downloadCRLSigner_log [OF d]
  obtain one where one: "log1 = log @ one" "length one \<le> 1" "list_all is_signer_fetch one"
    by (cases "log1 = log") auto
  show ?case
  proof (cases x)
    case (Inl e)
    with Cons.prems d one show ?thesis by auto
  next
    case (Inr crt)
    with Cons.prems d have "issuers_loop w d urls (issuers @ [crt]) log1 = (r, log')" by simp
    from Cons.IH [OF this] obtain new where
      "log' = log1 @ new" "length new \<le> length urls" "list_all is_signer_fetch new" by blast
    with one have "log' = log @ (one @ new) \<and> length (one @ new) \<le> length (u # urls)
        \<and> list_all is_signer_fetch (one @ new)" by simp
    then show ?thesis by blast
  qed
qed

lemma crl_loop_log:
  "crl_loop w d ek issuers urls log = (r, log') \<Longrightarrow>
   \<exists>new. log' = log @ new \<and> length new \<le> length urls \<and> list_all is_crl_fetch new"
proof (induction urls arbitrary: log)
  case Nil
  then show ?case by simp
next
  case (Cons u urls)
  obtain x log1 where d: "downloadCRL w d log u = (x, log1)"
    by (cases "downloadCRL w d log u")
  from downloadCRL_log [OF d]
  obtain one where one: "log1 = log @ one" "length one \<le> 1" "list_all is_crl_fetch one"
    by (cases "log1 = log") auto
  show ?case
  proof (cases "crl_loop w d ek issuers urls log1 = (r, log')")
    case True
    from Cons.IH [OF this] obtain new where
      "log' = log1 @ new" "length new \<le> length urls" "list_all is_crl_fetch new" by blast
    with one have "log' = log @ (one @ new) \<and> length (one @ new) \<le> length (u # urls)
        \<and> list_all is_crl_fetch (one @ new)" by simp
    then show ?thesis by blast
  next
    case False
    with Cons.prems d have "log' = log1"
      by (auto split: prod.splits option.splits if_splits)
    with one show ?thesis by auto
  qed
qed

lemma getIssuerCertificates_log:
  "getIssuerCertificates w d ek [] = (r, log) \<Longrightarrow>
   length log \<le> length (IssuingCertificateURL ek) \<and> list_all is_signer_fetch log"
proof -
  assume a: "getIssuerCertificates w d ek [] = (r, log)"
  show ?thesis
  proof (cases "prepareUrls w (IssuingCertificateURL ek)")
    case (Inl e)
    with a show ?thesis by (simp add: getIssuerCertificates_def)
  next
    case (Inr urls)
    with a have "issuers_loop w d urls [] [] = (r, log)" by (simp add: getIssuerCertificates_def)
    from issuers_loop_log [OF this] prepareUrls_length [OF Inr] show ?thesis by auto
  qed
qed

lemma revocation_log:
  "revocation w d ek issuers log = (r, log') \<Longrightarrow>
   \<exists>new. log' = log @ new \<and> length new \<le> length (CRLDistributionPoints ek)
     \<and> list_all is_crl_fetch new"
proof -
  assume a: "revocation w d ek issuers log = (r, log')"
  show ?thesis
  proof (cases "prepareUrls w (CRLDistributionPoints ek)")
    case (Inl e)
    with a show ?thesis by (simp add: revocation_def)
  next
    case (Inr urls)
    with a have "crl_loop w d ek issuers urls log = (r, log')" by (simp add: revocation_def)
    from crl_loop_log [OF this] prepareUrls_length [OF Inr] show ?thesis by fastforce
  qed
qed

lemma check_passes:
  "check c cfg = Return (None, cfg') \<Longrightarrow>
   \<exists>ek. EK cfg = Some ek \<and> EK cfg' = Some ek
     \<and> int (length (IssuingCertificateURL ek)) \<le> maxDownloads (downloader c)
     \<and> (\<not> SkipRevocationCheck cfg' \<longrightarrow>
          int (length (CRLDistributionPoints ek)) \<le> maxDownloads (downloader c))"
  by (auto simp: check_def Let_def split: option.splits if_splits)

lemma Check_log_shape:
  assumes "Check w c cfg = (r, log)"
  shows "log = [] \<or>
    (\<exists>sl cl. log = sl @ cl \<and> list_all is_signer_fetch sl \<and> list_all is_crl_fetch cl
       \<and> int (length sl) \<le> maxDownloads (downloader c)
       \<and> int (length cl) \<le> maxDownloads (downloader c))"
proof (cases "\<exists>cfg'. check c cfg = Return (None, cfg')")
  case False
  with assms have "log = []"
    by (auto simp: Check_def split: option.splits outcome.splits prod.splits)
  then show ?thesis by simp
next
  case True
  then obtain cfg' where chk: "check c cfg = Return (None, cfg')" by blast
  from check_passes [OF chk] obtain ek where ek: "EK cfg = Some ek" "EK cfg' = Some ek"
    and n1: "int (length (IssuingCertificateURL ek)) \<le> maxDownloads (downloader c)"
    and n2: "\<not> SkipRevocationCheck cfg' \<longrightarrow>
          int (length (CRLDistributionPoints ek)) \<le> maxDownloads (downloader c)" by blast
  obtain ri sl where gi: "getIssuerCertificates w (downloader c) ek [] = (ri, sl)"
    by (cases "getIssuerCertificates w (downloader c) ek []")
  from getIssuerCertificates_log [OF gi] n1
  have sl: "list_all is_signer_fetch sl" "int (length sl) \<le> maxDownloads (downloader c)"
    by auto
  then have N0: "0 \<le> maxDownloads (downloader c)" by linarith
  show ?thesis
  proof (cases ri)
    case (Inl e)
    with assms chk ek gi have "log = sl"
      by (simp add: Check_def CheckAndSetDefaults_def)
    with sl N0 have "log = sl @ [] \<and> list_all is_signer_fetch sl \<and> list_all is_crl_fetch []
       \<and> int (length sl) \<le> maxDownloads (downloader c)
       \<and> int (length ([]::fetch list)) \<le> maxDownloads (downloader c)" by simp
    then show ?thesis by blast
  next
    case (Inr issuers)
    show ?thesis
    proof (cases "SkipRevocationCheck cfg'")
      case True
      with assms chk ek gi Inr have "log = sl"
        by (auto simp: Check_def CheckAndSetDefaults_def split: option.splits)
      with sl N0 have "log = sl @ [] \<and> list_all is_signer_fetch sl \<and> list_all is_crl_fetch []
         \<and> int (length sl) \<le> maxDownloads (downloader c)
         \<and> int (length ([]::fetch list)) \<le> maxDownloads (downloader c)" by simp
      then show ?thesis by blast
    next
      case False
      obtain rr log' where rv: "revocation w (downloader c) ek issuers sl = (rr, log')"
        by (cases "revocation w (downloader c) ek issuers sl")
      from revocation_log [OF rv] obtain cl where cl: "log' = sl @ cl"
        "length cl \<le> length (CRLDistributionPoints ek)" "list_all is_crl_fetch cl" by blast
      from assms chk ek gi Inr False rv have "log = log'"
        by (auto simp: Check_def CheckAndSetDefaults_def split: option.splits outcome.splits)
      with cl sl n2 False have "log = sl @ cl \<and> list_all is_signer_fetch sl
         \<and> list_all is_crl_fetch cl
         \<and> int (length sl) \<le> maxDownloads (downloader c)
         \<and> int (length cl) \<le> maxDownloads (downloader c)" by simp
      then show ?thesis by blast
    qed
  qed
qed

lemma signer_fetches_append:
  "list_all is_signer_fetch sl \<Longrightarrow> list_all is_crl_fetch cl \<Longrightarrow>
   signer_fetches (sl @ cl) = length sl \<and> crl_fetches (sl @ cl) = length cl"
proof -
  assume a: "list_all is_signer_fetch sl" and b: "list_all is_crl_fetch cl"
  have s: "\<And>f. is_crl_fetch f = (\<not> is_signer_fetch f)"
    by (case_tac f) simp_all
  from a have "filter is_signer_fetch sl = sl" "filter is_crl_fetch sl = []"
    by (auto simp: s list_all_iff filter_empty_conv)
  moreover from b have "filter is_signer_fetch cl = []" "filter is_crl_fetch cl = cl"
    by (auto simp: s list_all_iff filter_empty_conv)
  ultimately show ?thesis by (simp add: signer_fetches_def crl_fetches_def)
qed

text \<open>
  C1, amended: with a ceiling \<open>N \<ge> 0\<close>, a run of \<^verbatim>\<open>Check\<close> makes at most \<open>N\<close>
  issuer-certificate fetches and at most \<open>N\<close> revocation-list fetches, hence at most
  \<open>2 * N\<close> fetches in all; and when the structural pre-checks do not pass, it makes
  none.
\<close>

theorem Check_fetches_bounded_per_kind:
  assumes "0 \<le> maxDownloads (downloader c)"
  shows "int (signer_fetches (snd (Check w c cfg))) \<le> maxDownloads (downloader c)
       \<and> int (crl_fetches (snd (Check w c cfg))) \<le> maxDownloads (downloader c)
       \<and> int (length (snd (Check w c cfg))) \<le> 2 * maxDownloads (downloader c)
       \<and> ((\<forall>cfg'. check c cfg \<noteq> Return (None, cfg')) \<longrightarrow> snd (Check w c cfg) = [])"
proof -
  obtain r log where C: "Check w c cfg = (r, log)" by (cases "Check w c cfg")
  have last: "(\<forall>cfg'. check c cfg \<noteq> Return (None, cfg')) \<longrightarrow> log = []"
    using C by (auto simp: Check_def split: option.splits outcome.splits prod.splits)
  from Check_log_shape [OF C] show ?thesis
  proof
    assume "log = []"
    with C assms show ?thesis by (simp add: signer_fetches_def crl_fetches_def)
  next
    assume "\<exists>sl cl. log = sl @ cl \<and> list_all is_signer_fetch sl \<and> list_all is_crl_fetch cl
       \<and> int (length sl) \<le> maxDownloads (downloader c)
       \<and> int (length cl) \<le> maxDownloads (downloader c)"
    then obtain sl cl where x: "log = sl @ cl" "list_all is_signer_fetch sl"
      "list_all is_crl_fetch cl" "int (length sl) \<le> maxDownloads (downloader c)"
      "int (length cl) \<le> maxDownloads (downloader c)" by blast
    from signer_fetches_append [OF x(2,3)] x C last show ?thesis by simp
  qed
qed



text \<open>
  C1, as stated, under the default downloader (ceiling 10): a certificate with six issuer
  URLs and six distribution points passes the pre-checks, and the run makes twelve fetches.
\<close>

theorem Check_total_fetches_counterexample:
  "\<not> int (length (snd (Check sample_world \<lparr>downloader = newDefaultDownloader\<rparr>
          \<lparr>EK = Some (sample_ek (replicate 6 ''http://pki/signer.cer'')
                  (replicate 6 ''http://pki/ek.crl'')),
           SkipRevocationCheck = False\<rparr>)))
      \<le> maxDownloads newDefaultDownloader"
  by code_simp

text \<open>
  The amended C1 on the run of twelve fetches, six of each kind under the ceiling 10, and
  on a certificate with eleven issuer URLs, which the pre-checks reject before any fetch.
\<close>

theorem Check_fetches_bounded_per_kind_witness:
  "0 \<le> maxDownloads (downloader (sample_checker True 10))
   \<and> signer_fetches (snd (Check sample_world (sample_checker True 10)
          \<lparr>EK = Some (sample_ek (replicate 6 ''http://pki/signer.cer'')
                  (replicate 6 ''http://pki/ek.crl'')),
           SkipRevocationCheck = False\<rparr>)) = 6
   \<and> int (crl_fetches (snd (Check sample_world (sample_checker True 10)
          \<lparr>EK = Some (sample_ek (replicate 6 ''http://pki/signer.cer'')
                  (replicate 6 ''http://pki/ek.crl'')),
           SkipRevocationCheck = False\<rparr>))) \<le> 10
   \<and> (\<forall>cfg'. check (sample_checker True 10)
          \<lparr>EK = Some (sample_ek (replicate 11 ''http://pki/signer.cer'') []),
           SkipRevocationCheck = False\<rparr> \<noteq> Return (None, cfg'))
   \<and> snd (Check sample_world (sample_checker True 10)
          \<lparr>EK = Some (sample_ek (replicate 11 ''http://pki/signer.cer'') []),
           SkipRevocationCheck = False\<rparr>) = []"
proof -
  have N: "0 \<le> maxDownloads (downloader (sample_checker True 10))"
    by (simp add: sample_checker_def)
  have six: "signer_fetches (snd (Check sample_world (sample_checker True 10)
          \<lparr>EK = Some (sample_ek (replicate 6 ''http://pki/signer.cer'')
                  (replicate 6 ''http://pki/ek.crl'')),
           SkipRevocationCheck = False\<rparr>)) = 6"
    by code_simp
  have rej: "\<forall>cfg'. check (sample_checker True 10)
          \<lparr>EK = Some (sample_ek (replicate 11 ''http://pki/signer.cer'') []),
           SkipRevocationCheck = False\<rparr> \<noteq> Return (None, cfg')"
    by (simp add: check_def sample_checker_def sample_ek_def)
  from N six rej
    Check_fetches_bounded_per_kind [OF N, of sample_world
      "\<lparr>EK = Some (sample_ek (replicate 6 ''http://pki/signer.cer'')
                  (replicate 6 ''http://pki/ek.crl'')), SkipRevocationCheck = False\<rparr>"]
    Check_fetches_bounded_per_kind [OF N, of sample_world
      "\<lparr>EK = Some (sample_ek (replicate 11 ''http://pki/signer.cer'') []),
           SkipRevocationCheck = False\<rparr>"]
  show ?thesis by (simp add: sample_checker_def)
qed

section \<open>The key locator\<close>

lemma getEK_snd:
  "snd (getEK tpm tr alg av) =
     tr @ [EvGetEK alg] @
       (if list_ex (\<lambda>t. Type t = alg) av
        then [EvEK (template_loop alg av EKCertTemplate_zero)] else [])"
  by (simp add: getEK_def Let_def)

lemma getEK_no_other_attempt:
  assumes "EvGetEK a \<notin> set tr" and "a \<noteq> alg"
  shows "EvGetEK a \<notin> set (snd (getEK tpm tr alg av))"
  using assms by (simp add: getEK_snd)

lemma search_with_persisted:
  assumes "EvGetEK TPMAlgRSA \<notin> set tr" and "PersistedEKs tpm \<noteq> []"
  shows "EvGetEK TPMAlgRSA \<notin> set (snd (search tpm tr))"
  using assms by (auto simp: search_def Let_def split: list.splits prod.splits)

lemma search_without_certificates:
  assumes "EvGetEK TPMAlgRSA \<notin> set tr" and "SearchAvailableCertificates tpm = []"
  shows "EvGetEK TPMAlgRSA \<notin> set (snd (search tpm tr))"
  using assms by (simp add: search_def Let_def)

lemma search_generating:
  assumes "SearchAvailableCertificates tpm \<noteq> []" and "PersistedEKs tpm = []"
    and "ecc_attempt tpm tr = ((ek, errGet), tr3)"
  shows "search tpm tr =
     (case errGet of
        None \<Rightarrow> (select_ek ek, tr3)
      | Some e \<Rightarrow>
          if errors_Is e ErrEKCertNotFound
          then (case getEK tpm tr3 TPMAlgRSA (SearchAvailableCertificates tpm) of
                  ((ek', Some e'), tr4) \<Rightarrow>
                    (Return (EK_zero, Some (Wrapf ''failed to get any EK cert: %w'' e')), tr4)
                | ((ek', None), tr4) \<Rightarrow>
                    (Return (EK_zero, Some (WrapfNil ''failed to get EK ECC cert: %w'')), tr4))
          else (Return (EK_zero, Some (Wrapf ''failed to get EK ECC cert: %w'' e)), tr3))"
  using assms
  by (auto simp: search_def ecc_attempt_def Let_def Errorf_w_def
      split: list.splits prod.splits option.splits)

text \<open>
  C5: in a search that starts without an earlier RSA attempt, \<^verbatim>\<open>getEK\<close> is called for
  RSA only if no handle is persisted and the elliptic-curve attempt failed with an error
  that is \<^verbatim>\<open>ErrEKCertNotFound\<close>; and when the elliptic-curve attempt fails with any
  other error, \<^verbatim>\<open>search\<close> returns that error wrapped, right after the attempt, without
  an RSA attempt.
\<close>

theorem search_RSA_only_after_ECC_not_found:
  assumes "EvGetEK TPMAlgRSA \<notin> set tr"
  shows "(EvGetEK TPMAlgRSA \<in> set (snd (search tpm tr)) \<longrightarrow>
            PersistedEKs tpm = [] \<and>
            (\<exists>e. snd (fst (ecc_attempt tpm tr)) = Some e \<and> errors_Is e ErrEKCertNotFound))
       \<and> (SearchAvailableCertificates tpm \<noteq> [] \<and> PersistedEKs tpm = [] \<and>
            snd (fst (ecc_attempt tpm tr)) = Some e \<and> \<not> errors_Is e ErrEKCertNotFound \<longrightarrow>
            search tpm tr =
              (Return (EK_zero, Some (Wrapf ''failed to get EK ECC cert: %w'' e)),
               snd (ecc_attempt tpm tr))
            \<and> EvGetEK TPMAlgRSA \<notin> set (snd (search tpm tr)))"
proof -
  obtain ek errGet tr3 where ecc: "ecc_attempt tpm tr = ((ek, errGet), tr3)"
    by (metis prod.exhaust)
  have tr3: "EvGetEK TPMAlgRSA \<notin> set tr3"
  proof -
    have "EvGetEK TPMAlgRSA \<notin> set (tr @ [EvSearchAvailableCertificates] @ [EvPersistedEKs])"
      using assms by simp
    from getEK_no_other_attempt [OF this, of TPMAlgECC tpm "SearchAvailableCertificates tpm"]
    show ?thesis using ecc by (simp add: ecc_attempt_def)
  qed
  have first: "EvGetEK TPMAlgRSA \<in> set (snd (search tpm tr)) \<longrightarrow>
            PersistedEKs tpm = [] \<and>
            (\<exists>e. snd (fst (ecc_attempt tpm tr)) = Some e \<and> errors_Is e ErrEKCertNotFound)"
  proof
    assume rsa: "EvGetEK TPMAlgRSA \<in> set (snd (search tpm tr))"
    with search_with_persisted [OF assms] have p: "PersistedEKs tpm = []" by blast
    from rsa search_without_certificates [OF assms]
    have a: "SearchAvailableCertificates tpm \<noteq> []" by blast
    from rsa tr3 search_generating [OF a p ecc]
    have "\<exists>e. errGet = Some e \<and> errors_Is e ErrEKCertNotFound"
      by (cases errGet) (auto split: if_splits)
    with p ecc show "PersistedEKs tpm = [] \<and>
            (\<exists>e. snd (fst (ecc_attempt tpm tr)) = Some e \<and> errors_Is e ErrEKCertNotFound)"
      by simp
  qed
  have second: "SearchAvailableCertificates tpm \<noteq> [] \<and> PersistedEKs tpm = [] \<and>
            snd (fst (ecc_attempt tpm tr)) = Some e \<and> \<not> errors_Is e ErrEKCertNotFound \<longrightarrow>
            search tpm tr =
              (Return (EK_zero, Some (Wrapf ''failed to get EK ECC cert: %w'' e)),
               snd (ecc_attempt tpm tr))
            \<and> EvGetEK TPMAlgRSA \<notin> set (snd (search tpm tr))"
  proof
    assume h: "SearchAvailableCertificates tpm \<noteq> [] \<and> PersistedEKs tpm = [] \<and>
            snd (fst (ecc_attempt tpm tr)) = Some e \<and> \<not> errors_Is e ErrEKCertNotFound"
    with ecc have e: "errGet = Some e" by simp
    from h have a: "SearchAvailableCertificates tpm \<noteq> []" and p: "PersistedEKs tpm = []"
      by simp_all
    from search_generating [OF a p ecc] e h tr3 ecc
    show "search tpm tr =
              (Return (EK_zero, Some (Wrapf ''failed to get EK ECC cert: %w'' e)),
               snd (ecc_attempt tpm tr))
            \<and> EvGetEK TPMAlgRSA \<notin> set (snd (search tpm tr))"
      by simp
  qed
  from first second show ?thesis by blast
qed

text \<open>
  C5 at a module holding only an RSA template (the elliptic-curve attempt finds no template
  and RSA is tried), and at a module holding both templates whose \<^verbatim>\<open>tpm.EK\<close> fails
  with a hardware error (the error is returned wrapped and RSA is not tried).
\<close>

theorem search_RSA_only_after_ECC_not_found_witness:
  "EvGetEK TPMAlgRSA \<notin> set []
   \<and> EvGetEK TPMAlgRSA \<in> set (snd (search
        (sample_tpm [\<lparr>Type = TPMAlgRSA, Index = 1\<rparr>] (\<lambda>t. (sample_endorsement t, None)) None) []))
   \<and> PersistedEKs
        (sample_tpm [\<lparr>Type = TPMAlgRSA, Index = 1\<rparr>] (\<lambda>t. (sample_endorsement t, None)) None) = []
   \<and> snd (fst (ecc_attempt
        (sample_tpm [\<lparr>Type = TPMAlgRSA, Index = 1\<rparr>] (\<lambda>t. (sample_endorsement t, None)) None) []))
       = Some ErrEKCertNotFound
   \<and> \<not> errors_Is (External ''TPM_RC_FAILURE'') ErrEKCertNotFound
   \<and> snd (fst (ecc_attempt
        (sample_tpm [\<lparr>Type = TPMAlgECC, Index = 2\<rparr>, \<lparr>Type = TPMAlgRSA, Index = 1\<rparr>]
           (\<lambda>t. (EK_zero, Some (External ''TPM_RC_FAILURE''))) None) []))
       = Some (External ''TPM_RC_FAILURE'')
   \<and> search (sample_tpm [\<lparr>Type = TPMAlgECC, Index = 2\<rparr>, \<lparr>Type = TPMAlgRSA, Index = 1\<rparr>]
           (\<lambda>t. (EK_zero, Some (External ''TPM_RC_FAILURE''))) None) []
       = (Return (EK_zero, Some (Wrapf ''failed to get EK ECC cert: %w'' (External ''TPM_RC_FAILURE''))),
          [EvSearchAvailableCertificates, EvPersistedEKs, EvGetEK TPMAlgECC,
           EvEK \<lparr>Type = TPMAlgECC, Index = 2\<rparr>])"
proof -
  let ?A = "sample_tpm [\<lparr>Type = TPMAlgRSA, Index = 1\<rparr>] (\<lambda>t. (sample_endorsement t, None)) None"
  let ?B = "sample_tpm [\<lparr>Type = TPMAlgECC, Index = 2\<rparr>, \<lparr>Type = TPMAlgRSA, Index = 1\<rparr>]
           (\<lambda>t. (EK_zero, Some (External ''TPM_RC_FAILURE''))) None"
  have no: "EvGetEK TPMAlgRSA \<notin> set ([]::tpm_event list)" by simp
  have rsa: "EvGetEK TPMAlgRSA \<in> set (snd (search ?A []))"
    by code_simp
  have eccA: "snd (fst (ecc_attempt ?A [])) = Some ErrEKCertNotFound"
    by code_simp
  have eccB: "snd (fst (ecc_attempt ?B [])) = Some (External ''TPM_RC_FAILURE'')"
    by code_simp
  have trB: "snd (ecc_attempt ?B [])
       = [EvSearchAvailableCertificates, EvPersistedEKs, EvGetEK TPMAlgECC,
           EvEK \<lparr>Type = TPMAlgECC, Index = 2\<rparr>]"
    by code_simp
  have other: "\<not> errors_Is (External ''TPM_RC_FAILURE'') ErrEKCertNotFound" by simp
  have avB: "SearchAvailableCertificates ?B \<noteq> []" and pB: "PersistedEKs ?B = []"
    by (simp_all add: sample_tpm_def)
  from search_RSA_only_after_ECC_not_found [OF no, of ?A] rsa
  have pA: "PersistedEKs ?A = []" by blast
  from search_RSA_only_after_ECC_not_found [OF no, of ?B "External ''TPM_RC_FAILURE''"]
    avB pB eccB other
  have "search ?B [] =
      (Return (EK_zero, Some (Wrapf ''failed to get EK ECC cert: %w'' (External ''TPM_RC_FAILURE''))),
       snd (ecc_attempt ?B []))" by blast
  with trB no rsa pA eccA eccB other show ?thesis by simp
qed

lemma search_RSA_success_falls_through:
  assumes "SearchAvailableCertificates tpm \<noteq> []" and "PersistedEKs tpm = []"
    and "ecc_attempt tpm tr = ((ek, Some e), tr3)" and "errors_Is e ErrEKCertNotFound"
    and "getEK tpm tr3 TPMAlgRSA (SearchAvailableCertificates tpm) = ((ek', None), tr4)"
  shows "search tpm tr = (Return (EK_zero, Some (WrapfNil ''failed to get EK ECC cert: %w'')), tr4)"
  using search_generating [OF assms(1,2,3)] assms(4,5) by simp

text \<open>
  C4 at a module without persisted handle that holds only an RSA template and certifies it:
  the elliptic-curve attempt ends with \<^verbatim>\<open>ErrEKCertNotFound\<close>, the RSA attempt succeeds,
  and \<^verbatim>\<open>search\<close> returns the zero \<^verbatim>\<open>EK\<close> with the error made by
  \<^verbatim>\<open>fmt.Errorf("failed to get EK ECC cert: %w", nil)\<close>, not the RSA certificate.
\<close>

theorem search_RSA_fallback_returns_error:
  "search (sample_tpm [\<lparr>Type = TPMAlgRSA, Index = 1\<rparr>] (\<lambda>t. (sample_endorsement t, None)) None) []
     = (Return (EK_zero, Some (WrapfNil ''failed to get EK ECC cert: %w'')),
        [EvSearchAvailableCertificates, EvPersistedEKs, EvGetEK TPMAlgECC, EvGetEK TPMAlgRSA,
         EvEK \<lparr>Type = TPMAlgRSA, Index = 1\<rparr>])"
  by code_simp

lemma getEK_ignores_Close: "getEK (tpm\<lparr>tpm_Close := x\<rparr>) tr alg av = getEK tpm tr alg av"
  by (simp add: getEK_def Let_def)

lemma search_ignores_Close: "search (tpm\<lparr>tpm_Close := x\<rparr>) tr = search tpm tr"
  by (simp add: search_def getEK_ignores_Close
      cong: list.case_cong prod.case_cong option.case_cong if_cong)

lemma GetEKCertificate_closes:
  assumes "OpenTPM tpm = None"
  shows "\<exists>tr. snd (GetEKCertificate tpm) = tr @ [EvClose]"
  using assms
  by (auto simp: GetEKCertificate_def deferred_close_def split: prod.splits option.splits)

lemma GetEKCertificate_drops_close_error:
  "fst (GetEKCertificate (tpm\<lparr>tpm_Close := x\<rparr>)) = fst (GetEKCertificate tpm)"
  by (auto simp: GetEKCertificate_def GetEKCertificate_body_def deferred_close_def
      search_ignores_Close split: prod.splits option.splits sum.splits outcome.splits)

text \<open>
  C9 at a module whose \<^verbatim>\<open>Close\<close> fails. On the path where the certificate is found,
  \<^verbatim>\<open>GetEKCertificate\<close> closes the module and returns the response with a nil error; on
  the path where \<^verbatim>\<open>Info\<close> fails, it closes the module and returns the error of
  \<^verbatim>\<open>Info\<close> alone. The failure of \<^verbatim>\<open>Close\<close> is in neither result.
\<close>

theorem GetEKCertificate_close_failure_lost:
  "GetEKCertificate (sample_tpm [\<lparr>Type = TPMAlgECC, Index = 2\<rparr>]
       (\<lambda>t. (sample_endorsement t, None)) (Some (External ''close failed'')))
     = (Return (Some \<lparr>resp_Certificate = Some (sample_ek [''http://pki/signer.cer''] []),
                      resp_Manufacturer = \<lparr>ASCII = ''IFX'', Name = ''Infineon''\<rparr>\<rparr>, None),
        [EvOpenTPM, EvInfo, EvSearchAvailableCertificates, EvPersistedEKs, EvGetEK TPMAlgECC,
         EvEK \<lparr>Type = TPMAlgECC, Index = 2\<rparr>, EvClose])
   \<and> GetEKCertificate ((sample_tpm [\<lparr>Type = TPMAlgECC, Index = 2\<rparr>]
       (\<lambda>t. (sample_endorsement t, None)) (Some (External ''close failed'')))
         \<lparr>tpm_Info := Inl (External ''info failed'')\<rparr>)
     = (Return (None, Some (Wrapf ''failed to get TPM info: %w'' (External ''info failed''))),
        [EvOpenTPM, EvInfo, EvClose])"
  by code_simp

section \<open>The revocation step under a disabled downloader\<close>

lemma crl_loop_disabled:
  assumes "\<not> enabled d"
  shows "crl_loop w d ek issuers (u # crlUrls) log = (Panic, log)"
  using assms by (simp add: downloadCRL_def)







end
